theory Spec2Isabelle
  imports Complex_Main "HOL-Library.AList" "HOL-Library.Sublist"
begin

section \<open>JavaScript values\<close>

text \<open>
  The values that flow through \<open>model.ts\<close>: request bodies, response payloads and the
  results of property reads. Objects are association lists (a key is looked up with
  \<open>map_of\<close>, and written with \<open>AList.update\<close>, which replaces in place or appends, as
  a JavaScript property write does). Number literals are modelled by their decimal value
  as rationals; \<open>JNaN\<close> is the one non-finite number the program can produce
  (from \<open>parseInt\<close>).
\<close>

datatype json =
    JUndefined
  | JNull
  | JBool bool
  | JNum rat
  | JNaN
  | JStr string
  | JArr "json list"
  | JObj "(string \<times> json) list"

text \<open>What the program can throw: \<open>new Error(message)\<close>, and the \<open>TypeError\<close> of a
  property read on \<open>undefined\<close> or \<open>null\<close> (carrying the name of the property read).\<close>

datatype exn = Error string | TypeError string

fun nullish :: "json \<Rightarrow> bool" where
  "nullish JUndefined = True"
| "nullish JNull = True"
| "nullish _ = False"

fun digit_char :: "nat \<Rightarrow> char" where
  "digit_char n = ''0123456789'' ! (n mod 10)"

fun string_of_nat :: "nat \<Rightarrow> string" where
  "string_of_nat n =
     (if n < 10 then [digit_char n] else string_of_nat (n div 10) @ [digit_char n])"

definition string_of_int :: "int \<Rightarrow> string" where
  "string_of_int i = (if i < 0 then CHR ''-'' # string_of_nat (nat (- i)) else string_of_nat (nat i))"

text \<open>The own property \<open>v.k\<close> of a value that is neither \<open>undefined\<close> nor \<open>null\<close>;
  a property that is not there reads as \<open>undefined\<close>. (Inherited properties are not
  modelled: the program reads only \<open>choices\<close>, \<open>message\<close>, \<open>content\<close>,
  \<open>generations\<close>, \<open>text\<close> and index 0, none of which a prototype defines.)\<close>

fun own_prop :: "json \<Rightarrow> string \<Rightarrow> json" where
  "own_prop (JObj kvs) k = (case map_of kvs k of None \<Rightarrow> JUndefined | Some v \<Rightarrow> v)"
| "own_prop (JArr xs) k = (if k = ''length'' then JNum (of_nat (length xs)) else JUndefined)"
| "own_prop (JStr s) k = (if k = ''length'' then JNum (of_nat (length s)) else JUndefined)"
| "own_prop _ k = JUndefined"

text \<open>The indexed property \<open>v[i]\<close>: an array element, a character of a string, or the
  property named by the decimal numeral of \<open>i\<close> of an object.\<close>

fun own_index :: "json \<Rightarrow> nat \<Rightarrow> json" where
  "own_index (JArr xs) i = (if i < length xs then xs ! i else JUndefined)"
| "own_index (JStr s) i = (if i < length s then JStr [s ! i] else JUndefined)"
| "own_index (JObj kvs) i = (case map_of kvs (string_of_nat i) of None \<Rightarrow> JUndefined | Some v \<Rightarrow> v)"
| "own_index _ i = JUndefined"

text \<open>The member expressions \<open>v.k\<close> and \<open>v[i]\<close>: reading a property of \<open>undefined\<close> or
  \<open>null\<close> throws.\<close>

definition get_field :: "json \<Rightarrow> string \<Rightarrow> exn + json" where
  "get_field v k = (if nullish v then Inl (TypeError k) else Inr (own_prop v k))"

definition get_index :: "json \<Rightarrow> nat \<Rightarrow> exn + json" where
  "get_index v i = (if nullish v then Inl (TypeError (string_of_nat i)) else Inr (own_index v i))"

text \<open>Optional chaining \<open>v?.k\<close> and nullish coalescing \<open>v ?? d\<close>.\<close>

definition opt_field :: "json \<Rightarrow> string \<Rightarrow> json" where
  "opt_field v k = (if nullish v then JUndefined else own_prop v k)"

definition coalesce :: "json \<Rightarrow> json \<Rightarrow> json" where
  "coalesce v d = (if nullish v then d else v)"

section \<open>The transient-error classifier\<close>

text \<open>\<open>isTransientHttpError\<close>: a \<open>switch\<close> whose five cases fall through to
  \<open>return true\<close>; every other code leaves the switch and returns false.\<close>

definition isTransientHttpError :: "int \<Rightarrow> bool" where
  "isTransientHttpError code =
     (if code = 429 then True
      else if code = 500 then True
      else if code = 502 then True
      else if code = 503 then True
      else if code = 504 then True
      else False)"

section \<open>Results, responses and effects\<close>

text \<open>
  Modelled from the spec: the module \<open>./result\<close> (type \<open>Result\<close>, functions \<open>success\<close>
  and \<open>error\<close>) is imported by \<open>model.ts\<close> and is not among the sources. The spec
  gives it as the tagged union of \<open>{ success: true, data: T }\<close> and
  \<open>{ success: false, message: string }\<close>. The data is a \<open>json\<close> here, since at run time
  \<open>success\<close> receives whatever the response payload holds.
\<close>

datatype result = Success (data_of: json) | Failure (message_of: string)

definition success :: "json \<Rightarrow> result" where
  "success d = Success d"

definition error :: "string \<Rightarrow> result" where
  "error msg = Failure msg"

text \<open>The fields of an axios response that \<open>complete\<close> reads.\<close>

record response =
  status :: int
  statusText :: string
  data :: json

text \<open>
  The client made by \<open>axios.create(config)\<close>, as far as \<open>complete\<close> uses it:
  \<open>client n url body\<close> is the response to the \<open>n\<close>-th call (from 0) of
  \<open>client.post(url, body, { validateStatus: (status) => true })\<close> within one call of
  \<open>complete\<close>. With that \<open>validateStatus\<close> every HTTP status resolves the promise, so
  each call yields a response.
\<close>

type_synonym client = "nat \<Rightarrow> string \<Rightarrow> json \<Rightarrow> response"

text \<open>The effects of \<open>complete\<close>, in order: console output, HTTP requests, pauses.\<close>

datatype event =
    ConsoleLog "json list"
  | HttpPost string json
  | Sleep int

fun is_post :: "event \<Rightarrow> bool" where
  "is_post (HttpPost u b) = True"
| "is_post _ = False"

definition attempts :: "event list \<Rightarrow> nat" where
  "attempts tr = length (filter is_post tr)"

fun sleeps :: "event list \<Rightarrow> int list" where
  "sleeps [] = []"
| "sleeps (Sleep ms # tr) = ms # sleeps tr"
| "sleeps (e # tr) = sleeps tr"

section \<open>The language model of \<open>createAxiosLanguageModel\<close>\<close>

text \<open>
  The object returned by \<open>createAxiosLanguageModel\<close> together with what its \<open>complete\<close>
  closes over: the URL, the axios configuration (its headers), the default parameters and
  the \<open>isOpenAI\<close> flag. \<open>retryMaxAttempts\<close> and \<open>retryPauseMs\<close> are the optional
  properties of \<open>TypeChatLanguageModel\<close> (\<open>None\<close> is \<open>undefined\<close>); they are integers
  here, negative ones included (fractions, \<open>NaN\<close> and \<open>Infinity\<close> are left out).
\<close>

record language_model =
  url :: string
  headers :: "(string \<times> string) list"
  defaultParams :: "(string \<times> json) list"
  isOpenAI :: bool
  retryMaxAttempts :: "int option"
  retryPauseMs :: "int option"

definition createAxiosLanguageModel ::
  "string \<Rightarrow> (string \<times> string) list \<Rightarrow> (string \<times> json) list \<Rightarrow> bool option \<Rightarrow> language_model" where
  "createAxiosLanguageModel u hs dps isOpenAI_arg =
     \<lparr>url = u, headers = hs, defaultParams = dps,
      isOpenAI = (case isOpenAI_arg of None \<Rightarrow> True | Some b \<Rightarrow> b),
      retryMaxAttempts = None, retryPauseMs = None\<rparr>"

text \<open>The spread \<open>{ ...obj, ...src }\<close>: the properties of \<open>src\<close> are written onto
  \<open>obj\<close> in order.\<close>

definition spread :: "(string \<times> json) list \<Rightarrow> (string \<times> json) list \<Rightarrow> (string \<times> json) list" where
  "spread obj src = foldl (\<lambda>acc (k, v). AList.update k v acc) obj src"

text \<open>The object literal \<open>params\<close> that \<open>complete\<close> builds on each iteration
  (\<open>model.ts\<close>, temperature 0.2).\<close>

definition complete_params :: "(string \<times> json) list \<Rightarrow> bool \<Rightarrow> string \<Rightarrow> (string \<times> json) list" where
  "complete_params dps isOpenAI_flag prompt =
     AList.update ''temperature'' (JNum (2 / 10))
       (spread dps
          (if isOpenAI_flag
           then [(''messages'', JArr [JObj [(''role'', JStr ''user''), (''content'', JStr prompt)]]),
                 (''n'', JNum 1)]
           else [(''prompt'', JStr prompt),
                 (''k'', JNum 0),
                 (''stop_sequences'', JArr []),
                 (''return_likelihoods'', JStr ''NONE'')]))"

text \<open>The same literal in the compiled build \<open>dist/model.js\<close> (temperature 0).\<close>

definition dist_complete_params :: "(string \<times> json) list \<Rightarrow> bool \<Rightarrow> string \<Rightarrow> (string \<times> json) list" where
  "dist_complete_params dps isOpenAI_flag prompt =
     AList.update ''temperature'' (JNum 0)
       (spread dps
          (if isOpenAI_flag
           then [(''messages'', JArr [JObj [(''role'', JStr ''user''), (''content'', JStr prompt)]]),
                 (''n'', JNum 1)]
           else [(''prompt'', JStr prompt),
                 (''k'', JNum 0),
                 (''stop_sequences'', JArr []),
                 (''return_likelihoods'', JStr ''NONE'')]))"

text \<open>The expression returned on status 200:
  \<open>success(result.data.choices[0].message?.content ?? "")\<close> for an OpenAI model,
  \<open>success(result.data.generations[0].text)\<close> otherwise. A throwing property read
  leaves \<open>complete\<close> with the exception.\<close>

definition extract_completion :: "bool \<Rightarrow> json \<Rightarrow> exn + result" where
  "extract_completion isOpenAI_flag d =
     (if isOpenAI_flag then
        (case get_field d ''choices'' of Inl e \<Rightarrow> Inl e | Inr choices \<Rightarrow>
        (case get_index choices 0 of Inl e \<Rightarrow> Inl e | Inr choice \<Rightarrow>
        (case get_field choice ''message'' of Inl e \<Rightarrow> Inl e | Inr msg \<Rightarrow>
           Inr (success (coalesce (opt_field msg ''content'') (JStr ''''))))))
      else
        (case get_field d ''generations'' of Inl e \<Rightarrow> Inl e | Inr generations \<Rightarrow>
        (case get_index generations 0 of Inl e \<Rightarrow> Inl e | Inr generation \<Rightarrow>
        (case get_field generation ''text'' of Inl e \<Rightarrow> Inl e | Inr t \<Rightarrow>
           Inr (success t)))))"

definition rest_error :: "response \<Rightarrow> result" where
  "rest_error r = error (''REST API error '' @ string_of_int (status r) @ '': '' @ statusText r)"

text \<open>The \<open>while (true)\<close> loop of \<open>complete\<close> (\<open>model.ts\<close>), from the state
  \<open>retryCount\<close> and the effects so far. One iteration makes one request, so the request
  of this iteration is call number \<open>retryCount\<close> of the client.\<close>

function complete_loop ::
  "language_model \<Rightarrow> client \<Rightarrow> string \<Rightarrow> int \<Rightarrow> int \<Rightarrow> nat \<Rightarrow> event list
     \<Rightarrow> (exn + result) \<times> event list" where
  "complete_loop m cl prompt maxAttempts pauseMs retryCount tr =
     (let params = JObj (complete_params (defaultParams m) (isOpenAI m) prompt);
          tr1 = tr @ [ConsoleLog [JStr ''[typechat]'', JObj [(''params'', params)]]];
          result = cl retryCount (url m) params;
          tr2 = tr1 @ [HttpPost (url m) params]
      in if status result = 200 then (extract_completion (isOpenAI m) (data result), tr2)
         else if \<not> isTransientHttpError (status result) \<or> int retryCount \<ge> maxAttempts
              then (Inr (rest_error result), tr2)
         else complete_loop m cl prompt maxAttempts pauseMs (retryCount + 1) (tr2 @ [Sleep pauseMs]))"
  by pat_completeness auto
termination
  by (relation "measure (\<lambda>(m, cl, prompt, maxAttempts, pauseMs, retryCount, tr).
                           nat (maxAttempts - int retryCount))") auto

declare complete_loop.simps [simp del]

text \<open>\<open>complete(prompt)\<close>: \<open>retryCount = 0\<close>, \<open>model.retryMaxAttempts ?? 3\<close>,
  \<open>model.retryPauseMs ?? 1000\<close>, then the loop.\<close>

definition effMaxAttempts :: "language_model \<Rightarrow> int" where
  "effMaxAttempts m = (case retryMaxAttempts m of None \<Rightarrow> 3 | Some n \<Rightarrow> n)"

definition effPauseMs :: "language_model \<Rightarrow> int" where
  "effPauseMs m = (case retryPauseMs m of None \<Rightarrow> 1000 | Some n \<Rightarrow> n)"

definition complete :: "language_model \<Rightarrow> client \<Rightarrow> string \<Rightarrow> (exn + result) \<times> event list" where
  "complete m cl prompt = complete_loop m cl prompt (effMaxAttempts m) (effPauseMs m) 0 []"

text \<open>The loop of \<open>complete\<close> in the compiled build \<open>dist/model.js\<close>: its own
  \<open>params\<close> literal, \<open>console.log({ params })\<close>, and on the failing exit the extra
  \<open>if (result.status === 400) console.log(result.data.message)\<close>.\<close>

function dist_complete_loop ::
  "language_model \<Rightarrow> client \<Rightarrow> string \<Rightarrow> int \<Rightarrow> int \<Rightarrow> nat \<Rightarrow> event list
     \<Rightarrow> (exn + result) \<times> event list" where
  "dist_complete_loop m cl prompt maxAttempts pauseMs retryCount tr =
     (let params = JObj (dist_complete_params (defaultParams m) (isOpenAI m) prompt);
          tr1 = tr @ [ConsoleLog [JObj [(''params'', params)]]];
          result = cl retryCount (url m) params;
          tr2 = tr1 @ [HttpPost (url m) params]
      in if status result = 200 then (extract_completion (isOpenAI m) (data result), tr2)
         else if \<not> isTransientHttpError (status result) \<or> int retryCount \<ge> maxAttempts
              then (if status result = 400
                    then (case get_field (data result) ''message'' of
                            Inl e \<Rightarrow> (Inl e, tr2)
                          | Inr msg \<Rightarrow> (Inr (rest_error result), tr2 @ [ConsoleLog [msg]]))
                    else (Inr (rest_error result), tr2))
         else dist_complete_loop m cl prompt maxAttempts pauseMs (retryCount + 1)
                (tr2 @ [Sleep pauseMs]))"
  by pat_completeness auto
termination
  by (relation "measure (\<lambda>(m, cl, prompt, maxAttempts, pauseMs, retryCount, tr).
                           nat (maxAttempts - int retryCount))") auto

declare dist_complete_loop.simps [simp del]

definition dist_complete :: "language_model \<Rightarrow> client \<Rightarrow> string \<Rightarrow> (exn + result) \<times> event list" where
  "dist_complete m cl prompt =
     dist_complete_loop m cl prompt (effMaxAttempts m) (effPauseMs m) 0 []"

section \<open>The provider factories\<close>

text \<open>
  \<open>parseInt(string)\<close> without a radix: leading white space is skipped, a sign is read, a
  prefix \<open>0x\<close> or \<open>0X\<close> selects radix 16 (otherwise 10), and the longest run of digits
  is the value; no digit gives \<open>NaN\<close>. The value is the exact integer (the rounding of
  very long numerals to a double is not modelled), and white space is the ASCII one.
\<close>

definition isWhiteSpace :: "char \<Rightarrow> bool" where
  "isWhiteSpace c = (c \<in> set [CHR 0x09, CHR 0x0A, CHR 0x0B, CHR 0x0C, CHR 0x0D, CHR 0x20])"

definition digitValue :: "char \<Rightarrow> nat option" where
  "digitValue c =
     (let n = (of_char c :: nat)
      in if 48 \<le> n \<and> n \<le> 57 then Some (n - 48)
         else if 97 \<le> n \<and> n \<le> 122 then Some (n - 87)
         else if 65 \<le> n \<and> n \<le> 90 then Some (n - 55)
         else None)"

definition isDigitOf :: "nat \<Rightarrow> char \<Rightarrow> bool" where
  "isDigitOf radix c = (case digitValue c of None \<Rightarrow> False | Some d \<Rightarrow> d < radix)"

definition digitsValue :: "nat \<Rightarrow> string \<Rightarrow> nat" where
  "digitsValue radix ds =
     foldl (\<lambda>acc c. acc * radix + (case digitValue c of None \<Rightarrow> 0 | Some d \<Rightarrow> d)) 0 ds"

definition parseInt :: "string \<Rightarrow> json" where
  "parseInt s =
     (let s1 = dropWhile isWhiteSpace s;
          negative = (take 1 s1 = ''-'');
          s2 = (if take 1 s1 = ''-'' \<or> take 1 s1 = ''+'' then drop 1 s1 else s1);
          hex = (take 2 s2 = ''0x'' \<or> take 2 s2 = ''0X'');
          radix = (if hex then 16 else 10);
          s3 = (if hex then drop 2 s2 else s2);
          ds = takeWhile (isDigitOf radix) s3
      in if ds = [] then JNaN
         else JNum (of_int ((if negative then - 1 else 1) * int (digitsValue radix ds))))"

text \<open>A parameter with a default value takes the default when the argument is
  \<open>undefined\<close> (\<open>None\<close>).\<close>

definition createOpenAILanguageModel ::
  "string \<Rightarrow> string \<Rightarrow> string option \<Rightarrow> string option \<Rightarrow> language_model" where
  "createOpenAILanguageModel apiKey model endPoint org =
     createAxiosLanguageModel
       (case endPoint of None \<Rightarrow> ''https://api.openai.com/v1/chat/completions'' | Some e \<Rightarrow> e)
       [(''Authorization'', ''Bearer '' @ apiKey),
        (''OpenAI-Organization'', (case org of None \<Rightarrow> '''' | Some g \<Rightarrow> g))]
       [(''model'', JStr model)]
       None"

definition createCohereLanguageModel ::
  "string \<Rightarrow> string \<Rightarrow> string option \<Rightarrow> string option \<Rightarrow> language_model" where
  "createCohereLanguageModel apiKey model endPoint maxTokens =
     createAxiosLanguageModel
       (case endPoint of None \<Rightarrow> ''https://api.cohere.ai/v1/generate'' | Some e \<Rightarrow> e)
       [(''Authorization'', ''BEARER '' @ apiKey)]
       [(''model'', JStr model),
        (''max_tokens'', parseInt (case maxTokens of None \<Rightarrow> ''500'' | Some t \<Rightarrow> t))]
       (Some False)"

definition createAzureOpenAILanguageModel :: "string \<Rightarrow> string \<Rightarrow> language_model" where
  "createAzureOpenAILanguageModel apiKey endPoint =
     createAxiosLanguageModel endPoint [(''api-key'', apiKey)] [] None"

section \<open>Selection by environment variables\<close>

text \<open>\<open>missingEnvironmentVariable(name)\<close> throws; this is the value thrown.\<close>

definition missingEnvironmentVariable :: "string \<Rightarrow> exn" where
  "missingEnvironmentVariable name = Error (''Missing environment variable: '' @ name)"

text \<open>The environment is a \<open>Record<string, string | undefined>\<close>. The condition
  \<open>if (env.K)\<close> holds when the value is a non-empty string.\<close>

type_synonym environment = "string \<Rightarrow> string option"

definition truthy :: "string option \<Rightarrow> bool" where
  "truthy v = (case v of None \<Rightarrow> False | Some s \<Rightarrow> s \<noteq> '''')"

definition createLanguageModel :: "environment \<Rightarrow> exn + language_model" where
  "createLanguageModel env =
     (if truthy (env ''OPENAI_API_KEY'') then
        (case env ''OPENAI_API_KEY'' of
           None \<Rightarrow> Inl (missingEnvironmentVariable ''OPENAI_API_KEY'')
         | Some apiKey \<Rightarrow>
        (case env ''OPENAI_MODEL'' of
           None \<Rightarrow> Inl (missingEnvironmentVariable ''OPENAI_MODEL'')
         | Some model \<Rightarrow>
        (let endPoint = (case env ''OPENAI_ENDPOINT'' of
                           None \<Rightarrow> ''https://api.openai.com/v1/chat/completions''
                         | Some e \<Rightarrow> e);
             org = (case env ''OPENAI_ORGANIZATION'' of None \<Rightarrow> '''' | Some g \<Rightarrow> g)
         in Inr (createOpenAILanguageModel apiKey model (Some endPoint) (Some org)))))
      else if truthy (env ''AZURE_OPENAI_API_KEY'') then
        (case env ''AZURE_OPENAI_API_KEY'' of
           None \<Rightarrow> Inl (missingEnvironmentVariable ''AZURE_OPENAI_API_KEY'')
         | Some apiKey \<Rightarrow>
        (case env ''AZURE_OPENAI_ENDPOINT'' of
           None \<Rightarrow> Inl (missingEnvironmentVariable ''AZURE_OPENAI_ENDPOINT'')
         | Some endPoint \<Rightarrow> Inr (createAzureOpenAILanguageModel apiKey endPoint)))
      else if truthy (env ''COHERE_API_KEY'') then
        (case env ''COHERE_API_KEY'' of
           None \<Rightarrow> Inl (missingEnvironmentVariable ''COHERE_API_KEY'')
         | Some apiKey \<Rightarrow>
        (let endPoint = (case env ''COHERE_ENDPOINT'' of
                           None \<Rightarrow> ''https://api.cohere.ai/v1/generate''
                         | Some e \<Rightarrow> e);
             maxTokens = (case env ''MAX_TOKENS'' of None \<Rightarrow> ''500'' | Some t \<Rightarrow> t)
         in Inr (createCohereLanguageModel apiKey ''command'' (Some endPoint) (Some maxTokens))))
      else Inl (missingEnvironmentVariable
                  ''OPENAI_API_KEY or AZURE_OPENAI_API_KEY or COHERE_API_KEY''))"

section \<open>Fixtures\<close>

text \<open>A client that gives the same response to every request, and one that follows a
  list of responses and then repeats a last one.\<close>

definition always :: "response \<Rightarrow> client" where
  "always r n u b = r"


definition resp :: "int \<Rightarrow> string \<Rightarrow> json \<Rightarrow> response" where
  "resp st reason d = \<lparr>status = st, statusText = reason, data = d\<rparr>"

text \<open>An environment from a list of bindings.\<close>

definition env_of :: "(string \<times> string) list \<Rightarrow> environment" where
  "env_of kvs = map_of kvs"

section \<open>One iteration of the loop\<close>

abbreviation params_of :: "language_model \<Rightarrow> string \<Rightarrow> json" where
  "params_of m prompt \<equiv> JObj (complete_params (defaultParams m) (isOpenAI m) prompt)"

abbreviation iteration :: "language_model \<Rightarrow> string \<Rightarrow> event list" where
  "iteration m prompt \<equiv>
     [ConsoleLog [JStr ''[typechat]'', JObj [(''params'', params_of m prompt)]],
      HttpPost (url m) (params_of m prompt)]"




lemma complete_loop_ok:
  assumes "status (cl rc (url m) (params_of m prompt)) = 200"
  shows "complete_loop m cl prompt M S rc tr =
           (extract_completion (isOpenAI m) (data (cl rc (url m) (params_of m prompt))),
            tr @ iteration m prompt)"
  using assms by (simp add: complete_loop.simps [of m cl prompt M S rc tr] Let_def)

lemma complete_loop_fail:
  assumes "status (cl rc (url m) (params_of m prompt)) \<noteq> 200"
    and "\<not> isTransientHttpError (status (cl rc (url m) (params_of m prompt))) \<or> M \<le> int rc"
  shows "complete_loop m cl prompt M S rc tr =
           (Inr (rest_error (cl rc (url m) (params_of m prompt))), tr @ iteration m prompt)"
  using assms by (auto simp add: complete_loop.simps [of m cl prompt M S rc tr] Let_def)

lemma complete_loop_retry:
  assumes "status (cl rc (url m) (params_of m prompt)) \<noteq> 200"
    and "isTransientHttpError (status (cl rc (url m) (params_of m prompt)))"
    and "int rc < M"
  shows "complete_loop m cl prompt M S rc tr =
           complete_loop m cl prompt M S (Suc rc) (tr @ iteration m prompt @ [Sleep S])"
  using assms by (simp add: complete_loop.simps [of m cl prompt M S rc tr] Let_def)




lemma complete_loop_posts:
  "set (snd (complete_loop m cl prompt M S rc tr)) \<subseteq>
     set tr \<union> set (iteration m prompt) \<union> {Sleep S} \<and>
   set (iteration m prompt) \<subseteq> set (snd (complete_loop m cl prompt M S rc tr))"
proof (induction k \<equiv> "nat M - rc" arbitrary: rc tr rule: less_induct)
  case less
  let ?r = "cl rc (url m) (params_of m prompt)"
  consider (ok) "status ?r = 200"
    | (fail) "status ?r \<noteq> 200" "\<not> isTransientHttpError (status ?r) \<or> M \<le> int rc"
    | (retry) "status ?r \<noteq> 200" "isTransientHttpError (status ?r)" "int rc < M"
    by linarith
  then show ?case
  proof cases
    case ok
    then show ?thesis by (auto simp add: complete_loop_ok)
  next
    case fail
    then show ?thesis by (auto simp add: complete_loop_fail)
  next
    case retry
    have step: "complete_loop m cl prompt M S rc tr =
           complete_loop m cl prompt M S (Suc rc) (tr @ iteration m prompt @ [Sleep S])"
      using retry by (simp add: complete_loop_retry)
    have smaller: "nat M - Suc rc < nat M - rc" using retry(3) by linarith
    from less.hyps [OF smaller, of "tr @ iteration m prompt @ [Sleep S]"]
    show ?thesis unfolding step by auto
  qed
qed



section \<open>The classifier\<close>

text \<open>
  C7. For every integer status code, \<open>isTransientHttpError\<close> returns true if and only
  if the code is one of 429, 500, 502, 503 and 504; every other code, the 2xx codes and the
  other 4xx codes among them, gives false.
\<close>

theorem isTransientHttpError_iff:
  "isTransientHttpError code \<longleftrightarrow> code \<in> {429, 500, 502, 503, 504}"
  by (simp add: isTransientHttpError_def)

theorem isTransientHttpError_iff_witness:
  "isTransientHttpError 429 \<and> isTransientHttpError 504 \<and> \<not> isTransientHttpError 200 \<and>
   \<not> isTransientHttpError 401 \<and> \<not> isTransientHttpError 501"
  using isTransientHttpError_iff [of 429] isTransientHttpError_iff [of 504]
    isTransientHttpError_iff [of 200] isTransientHttpError_iff [of 401]
    isTransientHttpError_iff [of 501]
  by simp

section \<open>The retry loop\<close>



text \<open>
  C3. If the first response has a status other than 200 that is not transient (401, say),
  \<open>complete\<close> returns \<open>Result.error\<close> after exactly one HTTP request, without a retry
  and without a pause; the message holds the status code and the status text.
\<close>

theorem complete_permanent_error:
  assumes r: "r = cl 0 (url m) (params_of m prompt)"
    and not200: "status r \<noteq> 200"
    and permanent: "\<not> isTransientHttpError (status r)"
  shows "complete m cl prompt =
           (Inr (error (''REST API error '' @ string_of_int (status r) @ '': '' @ statusText r)),
            iteration m prompt) \<and>
         attempts (snd (complete m cl prompt)) = 1 \<and>
         sleeps (snd (complete m cl prompt)) = []"
proof -
  have "complete m cl prompt = (Inr (rest_error r), [] @ iteration m prompt)"
    unfolding complete_def r
    by (rule complete_loop_fail) (use r not200 permanent in simp_all)
  then show ?thesis
    by (simp add: rest_error_def attempts_def)
qed

theorem complete_permanent_error_witness:
  "fst (complete (createOpenAILanguageModel ''key'' ''gpt-4'' None None)
         (always (resp 401 ''Unauthorized'' JNull)) ''hello'')
     = Inr (Failure ''REST API error 401: Unauthorized'') \<and>
   attempts (snd (complete (createOpenAILanguageModel ''key'' ''gpt-4'' None None)
         (always (resp 401 ''Unauthorized'' JNull)) ''hello'')) = 1 \<and>
   sleeps (snd (complete (createOpenAILanguageModel ''key'' ''gpt-4'' None None)
         (always (resp 401 ''Unauthorized'' JNull)) ''hello'')) = []"
proof -
  let ?m = "createOpenAILanguageModel ''key'' ''gpt-4'' None None"
  let ?r = "resp 401 ''Unauthorized'' JNull"
  have r: "?r = always ?r 0 (url ?m) (params_of ?m ''hello'')" by (simp add: always_def)
  have h1: "status ?r \<noteq> 200" by (simp add: resp_def)
  have h2: "\<not> isTransientHttpError (status ?r)" by (simp add: resp_def isTransientHttpError_def)
  have s: "string_of_int 401 = ''401''" by (simp add: string_of_int_def)
  from complete_permanent_error [of ?r "always ?r" ?m "''hello''", OF r h1 h2] s show ?thesis
    by (simp add: resp_def error_def attempts_def)
qed





section \<open>The request body\<close>

lemma map_of_complete_params_openai:
  "map_of (complete_params dps True prompt) =
     (map_of dps)(''messages'' \<mapsto> JArr [JObj [(''role'', JStr ''user''), (''content'', JStr prompt)]],
                  ''n'' \<mapsto> JNum 1,
                  ''temperature'' \<mapsto> JNum (2 / 10))"
  by (simp add: complete_params_def spread_def update_conv')

lemma map_of_complete_params_generate:
  "map_of (complete_params dps False prompt) =
     (map_of dps)(''prompt'' \<mapsto> JStr prompt,
                  ''k'' \<mapsto> JNum 0,
                  ''stop_sequences'' \<mapsto> JArr [],
                  ''return_likelihoods'' \<mapsto> JStr ''NONE'',
                  ''temperature'' \<mapsto> JNum (2 / 10))"
  by (simp add: complete_params_def spread_def update_conv')

lemma complete_posts:
  "HttpPost u b \<in> set (snd (complete m cl prompt)) \<longleftrightarrow> u = url m \<and> b = params_of m prompt"
  using complete_loop_posts [of m cl prompt "effMaxAttempts m" "effPauseMs m" 0 "[]"]
  unfolding complete_def by auto

text \<open>
  C5. Every request that \<open>complete\<close> sends goes to the model's URL with the body
  \<open>params\<close>, the same on each attempt. For an OpenAI model the body is \<open>defaultParams\<close>
  extended with \<open>messages = [{role: "user", content: prompt}]\<close>, \<open>n = 1\<close> and the fixed
  temperature 0.2; otherwise it is \<open>defaultParams\<close> extended with \<open>prompt\<close>, \<open>k = 0\<close>,
  \<open>stop_sequences = []\<close>, \<open>return_likelihoods = "NONE"\<close> and the same temperature.
\<close>

theorem complete_request_body:
  "(\<forall>u b. HttpPost u b \<in> set (snd (complete m cl prompt)) \<longleftrightarrow>
       u = url m \<and> b = JObj (complete_params (defaultParams m) (isOpenAI m) prompt)) \<and>
   map_of (complete_params dps True prompt) =
     (map_of dps)(''messages'' \<mapsto> JArr [JObj [(''role'', JStr ''user''), (''content'', JStr prompt)]],
                  ''n'' \<mapsto> JNum 1,
                  ''temperature'' \<mapsto> JNum (2 / 10)) \<and>
   map_of (complete_params dps False prompt) =
     (map_of dps)(''prompt'' \<mapsto> JStr prompt,
                  ''k'' \<mapsto> JNum 0,
                  ''stop_sequences'' \<mapsto> JArr [],
                  ''return_likelihoods'' \<mapsto> JStr ''NONE'',
                  ''temperature'' \<mapsto> JNum (2 / 10))"
proof (intro conjI allI)
  show "HttpPost u b \<in> set (snd (complete m cl prompt)) \<longleftrightarrow>
       u = url m \<and> b = JObj (complete_params (defaultParams m) (isOpenAI m) prompt)" for u b
    by (rule complete_posts)
qed (rule map_of_complete_params_openai, rule map_of_complete_params_generate)

theorem complete_request_body_witness:
  "HttpPost ''https://api.cohere.ai/v1/generate''
     (JObj [(''model'', JStr ''command''), (''max_tokens'', JNum 500), (''prompt'', JStr ''hello''),
            (''k'', JNum 0), (''stop_sequences'', JArr []), (''return_likelihoods'', JStr ''NONE''),
            (''temperature'', JNum (2 / 10))])
   \<in> set (snd (complete (createCohereLanguageModel ''key'' ''command'' None None)
                   (always (resp 401 ''Unauthorized'' JNull)) ''hello''))"
proof -
  let ?m = "createCohereLanguageModel ''key'' ''command'' None None"
  have u: "url ?m = ''https://api.cohere.ai/v1/generate''"
    by (simp add: createCohereLanguageModel_def createAxiosLanguageModel_def)
  have b: "JObj (complete_params (defaultParams ?m) (isOpenAI ?m) ''hello'') =
     JObj [(''model'', JStr ''command''), (''max_tokens'', JNum 500), (''prompt'', JStr ''hello''),
            (''k'', JNum 0), (''stop_sequences'', JArr []), (''return_likelihoods'', JStr ''NONE''),
            (''temperature'', JNum (2 / 10))]"
    by code_simp
  from complete_request_body [of ?m "always (resp 401 ''Unauthorized'' JNull)" "''hello''"] u b
  show ?thesis by simp
qed

section \<open>Extraction of the completion\<close>

lemma string_of_nat_0: "string_of_nat 0 = ''0''"
  by simp

text \<open>
  C2, as stated, fails: the extraction can throw. With status 200 on the OpenAI path, an
  empty \<open>choices\<close> array makes \<open>choices[0]\<close> undefined and the read of \<open>message\<close>
  throws; a payload without \<open>choices\<close> makes the read of index 0 throw. Neither call
  returns \<open>Result.success("")\<close>.
\<close>

theorem openai_extraction_fault_counterexample:
  "isOpenAI (createOpenAILanguageModel ''key'' ''gpt-4'' None None) \<and>
   fst (complete (createOpenAILanguageModel ''key'' ''gpt-4'' None None)
         (always (resp 200 ''OK'' (JObj [(''choices'', JArr [])]))) ''hello'')
     = Inl (TypeError ''message'') \<and>
   fst (complete (createOpenAILanguageModel ''key'' ''gpt-4'' None None)
         (always (resp 200 ''OK'' (JObj [(''error'', JStr ''overloaded'')]))) ''hello'')
     = Inl (TypeError ''0'')"
  by code_simp

text \<open>
  C2, amended. For every response with status 200 on the OpenAI path, \<open>complete\<close> reads
  \<open>choices[0].message.content\<close> of the payload. When \<open>message\<close> or \<open>content\<close> is
  absent (\<open>undefined\<close> or \<open>null\<close>) it returns \<open>Result.success\<close> with the empty string;
  when both are there it returns \<open>Result.success\<close> with the content. The fallback covers
  only these two: when the payload, its \<open>choices\<close> or \<open>choices[0]\<close> is absent, the
  property read throws a \<open>TypeError\<close> and no \<open>Result\<close> is returned.
\<close>

theorem complete_openai_extraction:
  assumes r: "r = cl 0 (url m) (params_of m prompt)"
    and openai: "isOpenAI m"
    and ok: "status r = 200"
  shows "fst (complete m cl prompt) =
     (let choices = own_prop (data r) ''choices'';
          choice = own_index choices 0;
          msg = own_prop choice ''message'';
          content = own_prop msg ''content''
      in if nullish (data r) then Inl (TypeError ''choices'')
         else if nullish choices then Inl (TypeError ''0'')
         else if nullish choice then Inl (TypeError ''message'')
         else if nullish msg \<or> nullish content then Inr (success (JStr ''''))
         else Inr (success content))"
proof -
  have "complete m cl prompt = (extract_completion (isOpenAI m) (data r), [] @ iteration m prompt)"
    unfolding complete_def r
    by (rule complete_loop_ok) (use r ok in simp)
  then show ?thesis
    using openai
    by (simp add: extract_completion_def get_field_def get_index_def opt_field_def coalesce_def
        Let_def string_of_nat_0)
qed

theorem complete_openai_extraction_witness:
  "fst (complete (createOpenAILanguageModel ''key'' ''gpt-4'' None None)
         (always (resp 200 ''OK'' (JObj [(''choices'', JArr [JObj [(''finish_reason'', JStr ''stop'')]])])))
         ''hello'')
     = Inr (Success (JStr ''''))"
proof -
  let ?m = "createOpenAILanguageModel ''key'' ''gpt-4'' None None"
  let ?r = "resp 200 ''OK'' (JObj [(''choices'', JArr [JObj [(''finish_reason'', JStr ''stop'')]])])"
  have r: "?r = always ?r 0 (url ?m) (params_of ?m ''hello'')" by (simp add: always_def)
  have h1: "isOpenAI ?m" by (simp add: createOpenAILanguageModel_def createAxiosLanguageModel_def)
  have h2: "status ?r = 200" by (simp add: resp_def)
  from complete_openai_extraction [of ?r "always ?r" ?m "''hello''", OF r h1 h2] show ?thesis
    by (simp add: resp_def success_def)
qed

text \<open>
  C6. Round trip: for every prompt and every completion string \<open>c\<close>, when the request
  built for the prompt on the OpenAI path is answered with status 200 and a well-formed
  payload whose \<open>choices[0].message.content\<close> is \<open>c\<close>, \<open>complete\<close> returns
  \<open>Result.success\<close> with exactly \<open>c\<close>, after that one request and without a pause.
\<close>

theorem openai_round_trip:
  assumes r: "r = cl 0 (url m) (JObj (complete_params (defaultParams m) True prompt))"
    and openai: "isOpenAI m"
    and ok: "status r = 200"
    and body: "data r = JObj kvs"
    and choices: "map_of kvs ''choices'' = Some (JArr (JObj ckvs # others))"
    and message: "map_of ckvs ''message'' = Some (JObj mkvs)"
    and content: "map_of mkvs ''content'' = Some (JStr c)"
  shows "complete m cl prompt = (Inr (success (JStr c)), iteration m prompt)"
proof -
  have r': "r = cl 0 (url m) (params_of m prompt)"
    using r openai by simp
  have "complete m cl prompt = (extract_completion (isOpenAI m) (data r), [] @ iteration m prompt)"
    unfolding complete_def r'
    by (rule complete_loop_ok) (use r' ok in simp)
  then show ?thesis
    using openai body choices message content
    by (simp add: extract_completion_def get_field_def get_index_def opt_field_def coalesce_def)
qed

theorem openai_round_trip_witness:
  "fst (complete (createOpenAILanguageModel ''key'' ''gpt-4'' None None)
         (always (resp 200 ''OK''
            (JObj [(''id'', JStr ''chatcmpl-1''),
                   (''choices'', JArr [JObj [(''index'', JNum 0),
                      (''message'', JObj [(''role'', JStr ''assistant''), (''content'', JStr ''pong'')])]])])))
         ''ping'')
     = Inr (Success (JStr ''pong''))"
proof -
  let ?m = "createOpenAILanguageModel ''key'' ''gpt-4'' None None"
  let ?r = "resp 200 ''OK''
            (JObj [(''id'', JStr ''chatcmpl-1''),
                   (''choices'', JArr [JObj [(''index'', JNum 0),
                      (''message'', JObj [(''role'', JStr ''assistant''), (''content'', JStr ''pong'')])]])])"
  have r: "?r = always ?r 0 (url ?m) (JObj (complete_params (defaultParams ?m) True ''ping''))"
    by (simp add: always_def)
  have h1: "isOpenAI ?m" by (simp add: createOpenAILanguageModel_def createAxiosLanguageModel_def)
  have h2: "status ?r = 200" by (simp add: resp_def)
  have h3: "data ?r = JObj [(''id'', JStr ''chatcmpl-1''),
                   (''choices'', JArr [JObj [(''index'', JNum 0),
                      (''message'', JObj [(''role'', JStr ''assistant''), (''content'', JStr ''pong'')])]])]"
    by (simp add: resp_def)
  have h4: "map_of [(''id'', JStr ''chatcmpl-1''),
                   (''choices'', JArr [JObj [(''index'', JNum 0),
                      (''message'', JObj [(''role'', JStr ''assistant''), (''content'', JStr ''pong'')])]])]
              ''choices''
        = Some (JArr (JObj [(''index'', JNum 0),
                      (''message'', JObj [(''role'', JStr ''assistant''), (''content'', JStr ''pong'')])] # []))"
    by simp
  have h5: "map_of [(''index'', JNum 0),
                      (''message'', JObj [(''role'', JStr ''assistant''), (''content'', JStr ''pong'')])]
              ''message''
        = Some (JObj [(''role'', JStr ''assistant''), (''content'', JStr ''pong'')])"
    by simp
  have h6: "map_of [(''role'', JStr ''assistant''), (''content'', JStr ''pong'')] ''content''
        = Some (JStr ''pong'')"
    by simp
  from openai_round_trip [of ?r "always ?r" ?m "''ping''", OF r h1 h2 h3 h4 h5 h6] show ?thesis
    by (simp add: success_def)
qed

section \<open>Selection of the provider\<close>

lemma truthy_simps:
  "truthy None = False" "truthy (Some s) = (s \<noteq> '''')"
  by (simp_all add: truthy_def)

lemma absent_not_truthy: "v \<in> {None, Some ''''} \<Longrightarrow> \<not> truthy v"
  by (auto simp: truthy_def)

lemma missing_messages:
  "missingEnvironmentVariable ''OPENAI_MODEL'' = Error ''Missing environment variable: OPENAI_MODEL''"
  "missingEnvironmentVariable ''AZURE_OPENAI_ENDPOINT'' =
     Error ''Missing environment variable: AZURE_OPENAI_ENDPOINT''"
  "missingEnvironmentVariable ''OPENAI_API_KEY or AZURE_OPENAI_API_KEY or COHERE_API_KEY'' =
     Error ''Missing environment variable: OPENAI_API_KEY or AZURE_OPENAI_API_KEY or COHERE_API_KEY''"
  by (simp_all add: missingEnvironmentVariable_def)

lemma createLanguageModel_openai:
  assumes "env ''OPENAI_API_KEY'' = Some key" "key \<noteq> ''''"
  shows "createLanguageModel env =
        (case env ''OPENAI_MODEL'' of
           None \<Rightarrow> Inl (Error ''Missing environment variable: OPENAI_MODEL'')
         | Some model \<Rightarrow>
             Inr (createOpenAILanguageModel key model
                    (Some (case env ''OPENAI_ENDPOINT'' of
                             None \<Rightarrow> ''https://api.openai.com/v1/chat/completions''
                           | Some e \<Rightarrow> e))
                    (Some (case env ''OPENAI_ORGANIZATION'' of None \<Rightarrow> '''' | Some g \<Rightarrow> g))))"
proof -
  have t: "truthy (Some key)" using assms by (simp add: truthy_simps)
  show ?thesis
    unfolding createLanguageModel_def Let_def missing_messages
    by (simp only: t assms(1) if_True option.case)
qed

lemma createLanguageModel_azure:
  assumes "env ''OPENAI_API_KEY'' \<in> {None, Some ''''}"
    "env ''AZURE_OPENAI_API_KEY'' = Some key" "key \<noteq> ''''"
  shows "createLanguageModel env =
        (case env ''AZURE_OPENAI_ENDPOINT'' of
           None \<Rightarrow> Inl (Error ''Missing environment variable: AZURE_OPENAI_ENDPOINT'')
         | Some endPoint \<Rightarrow> Inr (createAzureOpenAILanguageModel key endPoint))"
proof -
  have t1: "\<not> truthy (env ''OPENAI_API_KEY'')" using assms(1) by (rule absent_not_truthy)
  have t2: "truthy (Some key)" using assms by (simp add: truthy_simps)
  show ?thesis
    unfolding createLanguageModel_def Let_def missing_messages
    by (simp only: t1 t2 assms(2) if_True if_False option.case)
qed

lemma createLanguageModel_cohere:
  assumes "env ''OPENAI_API_KEY'' \<in> {None, Some ''''}"
    "env ''AZURE_OPENAI_API_KEY'' \<in> {None, Some ''''}"
    "env ''COHERE_API_KEY'' = Some key" "key \<noteq> ''''"
  shows "createLanguageModel env =
        Inr (createCohereLanguageModel key ''command''
               (Some (case env ''COHERE_ENDPOINT'' of
                        None \<Rightarrow> ''https://api.cohere.ai/v1/generate''
                      | Some e \<Rightarrow> e))
               (Some (case env ''MAX_TOKENS'' of None \<Rightarrow> ''500'' | Some t \<Rightarrow> t)))"
proof -
  have t1: "\<not> truthy (env ''OPENAI_API_KEY'')" using assms(1) by (rule absent_not_truthy)
  have t2: "\<not> truthy (env ''AZURE_OPENAI_API_KEY'')" using assms(2) by (rule absent_not_truthy)
  have t3: "truthy (Some key)" using assms by (simp add: truthy_simps)
  show ?thesis
    unfolding createLanguageModel_def Let_def
    by (simp only: t1 t2 t3 assms(3) if_True if_False option.case)
qed

lemma createLanguageModel_none:
  assumes "env ''OPENAI_API_KEY'' \<in> {None, Some ''''}"
    "env ''AZURE_OPENAI_API_KEY'' \<in> {None, Some ''''}"
    "env ''COHERE_API_KEY'' \<in> {None, Some ''''}"
  shows "createLanguageModel env =
        Inl (Error ''Missing environment variable: OPENAI_API_KEY or AZURE_OPENAI_API_KEY or COHERE_API_KEY'')"
proof -
  have t1: "\<not> truthy (env ''OPENAI_API_KEY'')" using assms(1) by (rule absent_not_truthy)
  have t2: "\<not> truthy (env ''AZURE_OPENAI_API_KEY'')" using assms(2) by (rule absent_not_truthy)
  have t3: "\<not> truthy (env ''COHERE_API_KEY'')" using assms(3) by (rule absent_not_truthy)
  show ?thesis
    unfolding createLanguageModel_def Let_def missing_messages
    by (simp only: t1 t2 t3 if_False)
qed

lemma empty_key_openai:
  assumes "env ''OPENAI_API_KEY'' = Some ''''"
  shows "createLanguageModel env = createLanguageModel (env(''OPENAI_API_KEY'' := None))"
  using assms by (simp add: createLanguageModel_def truthy_simps Let_def cong: option.case_cong if_cong)

lemma empty_key_azure:
  assumes "env ''AZURE_OPENAI_API_KEY'' = Some ''''"
  shows "createLanguageModel env = createLanguageModel (env(''AZURE_OPENAI_API_KEY'' := None))"
  using assms by (simp add: createLanguageModel_def truthy_simps Let_def cong: option.case_cong if_cong)

lemma empty_key_cohere:
  assumes "env ''COHERE_API_KEY'' = Some ''''"
  shows "createLanguageModel env = createLanguageModel (env(''COHERE_API_KEY'' := None))"
  using assms by (simp add: createLanguageModel_def truthy_simps Let_def cong: option.case_cong if_cong)

text \<open>
  C8. For every environment, \<open>createLanguageModel\<close> dispatches to exactly one factory, in
  the order OpenAI key, Azure key, Cohere key, a key being present when it is bound to a
  non-empty string; it throws when no key is present, and when the variable that the
  selected provider requires is undefined (\<open>OPENAI_MODEL\<close> for OpenAI,
  \<open>AZURE_OPENAI_ENDPOINT\<close> for Azure).
\<close>

theorem createLanguageModel_dispatch:
  "(env ''OPENAI_API_KEY'' = Some key \<and> key \<noteq> '''' \<longrightarrow>
      createLanguageModel env =
        (case env ''OPENAI_MODEL'' of
           None \<Rightarrow> Inl (Error ''Missing environment variable: OPENAI_MODEL'')
         | Some model \<Rightarrow>
             Inr (createOpenAILanguageModel key model
                    (Some (case env ''OPENAI_ENDPOINT'' of
                             None \<Rightarrow> ''https://api.openai.com/v1/chat/completions''
                           | Some e \<Rightarrow> e))
                    (Some (case env ''OPENAI_ORGANIZATION'' of None \<Rightarrow> '''' | Some g \<Rightarrow> g))))) \<and>
   (env ''OPENAI_API_KEY'' \<in> {None, Some ''''} \<and>
    env ''AZURE_OPENAI_API_KEY'' = Some key \<and> key \<noteq> '''' \<longrightarrow>
      createLanguageModel env =
        (case env ''AZURE_OPENAI_ENDPOINT'' of
           None \<Rightarrow> Inl (Error ''Missing environment variable: AZURE_OPENAI_ENDPOINT'')
         | Some endPoint \<Rightarrow> Inr (createAzureOpenAILanguageModel key endPoint))) \<and>
   (env ''OPENAI_API_KEY'' \<in> {None, Some ''''} \<and>
    env ''AZURE_OPENAI_API_KEY'' \<in> {None, Some ''''} \<and>
    env ''COHERE_API_KEY'' = Some key \<and> key \<noteq> '''' \<longrightarrow>
      createLanguageModel env =
        Inr (createCohereLanguageModel key ''command''
               (Some (case env ''COHERE_ENDPOINT'' of
                        None \<Rightarrow> ''https://api.cohere.ai/v1/generate''
                      | Some e \<Rightarrow> e))
               (Some (case env ''MAX_TOKENS'' of None \<Rightarrow> ''500'' | Some t \<Rightarrow> t)))) \<and>
   (env ''OPENAI_API_KEY'' \<in> {None, Some ''''} \<and>
    env ''AZURE_OPENAI_API_KEY'' \<in> {None, Some ''''} \<and>
    env ''COHERE_API_KEY'' \<in> {None, Some ''''} \<longrightarrow>
      createLanguageModel env =
        Inl (Error ''Missing environment variable: OPENAI_API_KEY or AZURE_OPENAI_API_KEY or COHERE_API_KEY''))"
proof (intro conjI impI; elim conjE)
  assume "env ''OPENAI_API_KEY'' = Some key" "key \<noteq> ''''"
  then show "createLanguageModel env =
        (case env ''OPENAI_MODEL'' of
           None \<Rightarrow> Inl (Error ''Missing environment variable: OPENAI_MODEL'')
         | Some model \<Rightarrow>
             Inr (createOpenAILanguageModel key model
                    (Some (case env ''OPENAI_ENDPOINT'' of
                             None \<Rightarrow> ''https://api.openai.com/v1/chat/completions''
                           | Some e \<Rightarrow> e))
                    (Some (case env ''OPENAI_ORGANIZATION'' of None \<Rightarrow> '''' | Some g \<Rightarrow> g))))"
    by (rule createLanguageModel_openai)
next
  assume "env ''OPENAI_API_KEY'' \<in> {None, Some ''''}"
    "env ''AZURE_OPENAI_API_KEY'' = Some key" "key \<noteq> ''''"
  then show "createLanguageModel env =
        (case env ''AZURE_OPENAI_ENDPOINT'' of
           None \<Rightarrow> Inl (Error ''Missing environment variable: AZURE_OPENAI_ENDPOINT'')
         | Some endPoint \<Rightarrow> Inr (createAzureOpenAILanguageModel key endPoint))"
    by (rule createLanguageModel_azure)
next
  assume "env ''OPENAI_API_KEY'' \<in> {None, Some ''''}"
    "env ''AZURE_OPENAI_API_KEY'' \<in> {None, Some ''''}"
    "env ''COHERE_API_KEY'' = Some key" "key \<noteq> ''''"
  then show "createLanguageModel env =
        Inr (createCohereLanguageModel key ''command''
               (Some (case env ''COHERE_ENDPOINT'' of
                        None \<Rightarrow> ''https://api.cohere.ai/v1/generate''
                      | Some e \<Rightarrow> e))
               (Some (case env ''MAX_TOKENS'' of None \<Rightarrow> ''500'' | Some t \<Rightarrow> t)))"
    by (rule createLanguageModel_cohere)
next
  assume "env ''OPENAI_API_KEY'' \<in> {None, Some ''''}"
    "env ''AZURE_OPENAI_API_KEY'' \<in> {None, Some ''''}"
    "env ''COHERE_API_KEY'' \<in> {None, Some ''''}"
  then show "createLanguageModel env =
        Inl (Error ''Missing environment variable: OPENAI_API_KEY or AZURE_OPENAI_API_KEY or COHERE_API_KEY'')"
    by (rule createLanguageModel_none)
qed

theorem createLanguageModel_dispatch_witness:
  "createLanguageModel (env_of [(''COHERE_API_KEY'', ''co-1''), (''AZURE_OPENAI_API_KEY'', ''az-1''),
        (''OPENAI_API_KEY'', ''sk-1''), (''OPENAI_MODEL'', ''gpt-4'')])
     = Inr (createOpenAILanguageModel ''sk-1'' ''gpt-4''
              (Some ''https://api.openai.com/v1/chat/completions'') (Some '''')) \<and>
   createLanguageModel (env_of [(''OPENAI_API_KEY'', ''sk-1''), (''AZURE_OPENAI_API_KEY'', ''az-1'')])
     = Inl (Error ''Missing environment variable: OPENAI_MODEL'') \<and>
   createLanguageModel (env_of [(''COHERE_API_KEY'', ''co-1''), (''AZURE_OPENAI_API_KEY'', ''az-1''),
        (''AZURE_OPENAI_ENDPOINT'', ''https://example.test/azure'')])
     = Inr (createAzureOpenAILanguageModel ''az-1'' ''https://example.test/azure'') \<and>
   createLanguageModel (env_of [(''COHERE_API_KEY'', ''co-1''), (''AZURE_OPENAI_API_KEY'', ''az-1'')])
     = Inl (Error ''Missing environment variable: AZURE_OPENAI_ENDPOINT'') \<and>
   createLanguageModel (env_of [(''COHERE_API_KEY'', ''co-1'')])
     = Inr (createCohereLanguageModel ''co-1'' ''command''
              (Some ''https://api.cohere.ai/v1/generate'') (Some ''500'')) \<and>
   createLanguageModel (env_of [(''OPENAI_MODEL'', ''gpt-4'')])
     = Inl (Error ''Missing environment variable: OPENAI_API_KEY or AZURE_OPENAI_API_KEY or COHERE_API_KEY'')"
proof (intro conjI)
  let ?e1 = "env_of [(''COHERE_API_KEY'', ''co-1''), (''AZURE_OPENAI_API_KEY'', ''az-1''),
        (''OPENAI_API_KEY'', ''sk-1''), (''OPENAI_MODEL'', ''gpt-4'')]"
  show "createLanguageModel ?e1 = Inr (createOpenAILanguageModel ''sk-1'' ''gpt-4''
              (Some ''https://api.openai.com/v1/chat/completions'') (Some ''''))"
    using createLanguageModel_dispatch [of ?e1 "''sk-1''", THEN conjunct1]
    by (simp add: env_of_def)
next
  let ?e2 = "env_of [(''OPENAI_API_KEY'', ''sk-1''), (''AZURE_OPENAI_API_KEY'', ''az-1'')]"
  show "createLanguageModel ?e2 = Inl (Error ''Missing environment variable: OPENAI_MODEL'')"
    using createLanguageModel_dispatch [of ?e2 "''sk-1''", THEN conjunct1]
    by (simp add: env_of_def)
next
  let ?e3 = "env_of [(''COHERE_API_KEY'', ''co-1''), (''AZURE_OPENAI_API_KEY'', ''az-1''),
        (''AZURE_OPENAI_ENDPOINT'', ''https://example.test/azure'')]"
  show "createLanguageModel ?e3 = Inr (createAzureOpenAILanguageModel ''az-1'' ''https://example.test/azure'')"
    using createLanguageModel_dispatch [of ?e3 "''az-1''", THEN conjunct2, THEN conjunct1]
    by (simp add: env_of_def)
next
  let ?e4 = "env_of [(''COHERE_API_KEY'', ''co-1''), (''AZURE_OPENAI_API_KEY'', ''az-1'')]"
  show "createLanguageModel ?e4 = Inl (Error ''Missing environment variable: AZURE_OPENAI_ENDPOINT'')"
    using createLanguageModel_dispatch [of ?e4 "''az-1''", THEN conjunct2, THEN conjunct1]
    by (simp add: env_of_def)
next
  let ?e5 = "env_of [(''COHERE_API_KEY'', ''co-1'')]"
  show "createLanguageModel ?e5 = Inr (createCohereLanguageModel ''co-1'' ''command''
              (Some ''https://api.cohere.ai/v1/generate'') (Some ''500''))"
    using createLanguageModel_dispatch [of ?e5 "''co-1''", THEN conjunct2, THEN conjunct2, THEN conjunct1]
    by (simp add: env_of_def)
next
  let ?e6 = "env_of [(''OPENAI_MODEL'', ''gpt-4'')]"
  show "createLanguageModel ?e6 =
     Inl (Error ''Missing environment variable: OPENAI_API_KEY or AZURE_OPENAI_API_KEY or COHERE_API_KEY'')"
    using createLanguageModel_dispatch [of ?e6 "''unused''", THEN conjunct2, THEN conjunct2, THEN conjunct2]
    by (simp add: env_of_def)
qed

text \<open>
  C10. A credential variable bound to the empty string counts as absent:
  \<open>createLanguageModel\<close> gives the same outcome as on the environment where that
  variable is undefined. So an empty \<open>OPENAI_API_KEY\<close> does not select the OpenAI
  factory and the Azure key is looked at next; and when each of the three keys is empty or
  undefined, the missing-variable exception is thrown.
\<close>

theorem createLanguageModel_empty_key:
  "(k \<in> {''OPENAI_API_KEY'', ''AZURE_OPENAI_API_KEY'', ''COHERE_API_KEY''} \<and> env k = Some '''' \<longrightarrow>
      createLanguageModel env = createLanguageModel (env(k := None))) \<and>
   (env ''OPENAI_API_KEY'' = Some '''' \<and> env ''AZURE_OPENAI_API_KEY'' = Some key \<and> key \<noteq> '''' \<longrightarrow>
      createLanguageModel env =
        (case env ''AZURE_OPENAI_ENDPOINT'' of
           None \<Rightarrow> Inl (Error ''Missing environment variable: AZURE_OPENAI_ENDPOINT'')
         | Some endPoint \<Rightarrow> Inr (createAzureOpenAILanguageModel key endPoint))) \<and>
   ((\<forall>c \<in> {''OPENAI_API_KEY'', ''AZURE_OPENAI_API_KEY'', ''COHERE_API_KEY''}.
        env c = None \<or> env c = Some '''') \<longrightarrow>
      createLanguageModel env =
        Inl (Error ''Missing environment variable: OPENAI_API_KEY or AZURE_OPENAI_API_KEY or COHERE_API_KEY''))"
proof (intro conjI impI)
  assume "k \<in> {''OPENAI_API_KEY'', ''AZURE_OPENAI_API_KEY'', ''COHERE_API_KEY''} \<and> env k = Some ''''"
  then consider "k = ''OPENAI_API_KEY''" "env ''OPENAI_API_KEY'' = Some ''''"
    | "k = ''AZURE_OPENAI_API_KEY''" "env ''AZURE_OPENAI_API_KEY'' = Some ''''"
    | "k = ''COHERE_API_KEY''" "env ''COHERE_API_KEY'' = Some ''''"
    by blast
  then show "createLanguageModel env = createLanguageModel (env(k := None))"
  proof cases
    case 1
    then show ?thesis using empty_key_openai [of env] by simp
  next
    case 2
    then show ?thesis using empty_key_azure [of env] by simp
  next
    case 3
    then show ?thesis using empty_key_cohere [of env] by simp
  qed
next
  assume "env ''OPENAI_API_KEY'' = Some '''' \<and> env ''AZURE_OPENAI_API_KEY'' = Some key \<and> key \<noteq> ''''"
  then have "env ''OPENAI_API_KEY'' \<in> {None, Some ''''}"
    "env ''AZURE_OPENAI_API_KEY'' = Some key" "key \<noteq> ''''"
    by simp_all
  then show "createLanguageModel env =
        (case env ''AZURE_OPENAI_ENDPOINT'' of
           None \<Rightarrow> Inl (Error ''Missing environment variable: AZURE_OPENAI_ENDPOINT'')
         | Some endPoint \<Rightarrow> Inr (createAzureOpenAILanguageModel key endPoint))"
    by (rule createLanguageModel_azure)
next
  assume all: "\<forall>c \<in> {''OPENAI_API_KEY'', ''AZURE_OPENAI_API_KEY'', ''COHERE_API_KEY''}.
        env c = None \<or> env c = Some ''''"
  have "env ''OPENAI_API_KEY'' \<in> {None, Some ''''}"
    "env ''AZURE_OPENAI_API_KEY'' \<in> {None, Some ''''}"
    "env ''COHERE_API_KEY'' \<in> {None, Some ''''}"
    using all by blast+
  then show "createLanguageModel env =
        Inl (Error ''Missing environment variable: OPENAI_API_KEY or AZURE_OPENAI_API_KEY or COHERE_API_KEY'')"
    by (rule createLanguageModel_none)
qed

theorem createLanguageModel_empty_key_witness:
  "createLanguageModel (env_of [(''OPENAI_API_KEY'', ''''), (''OPENAI_MODEL'', ''gpt-4''),
        (''AZURE_OPENAI_API_KEY'', ''az-1''), (''AZURE_OPENAI_ENDPOINT'', ''https://example.test/azure'')])
     = Inr (createAzureOpenAILanguageModel ''az-1'' ''https://example.test/azure'') \<and>
   createLanguageModel (env_of [(''OPENAI_API_KEY'', ''''), (''OPENAI_MODEL'', ''gpt-4''),
        (''AZURE_OPENAI_API_KEY'', ''az-1''), (''AZURE_OPENAI_ENDPOINT'', ''https://example.test/azure'')])
     = createLanguageModel ((env_of [(''OPENAI_API_KEY'', ''''), (''OPENAI_MODEL'', ''gpt-4''),
        (''AZURE_OPENAI_API_KEY'', ''az-1''), (''AZURE_OPENAI_ENDPOINT'', ''https://example.test/azure'')])
          (''OPENAI_API_KEY'' := None)) \<and>
   createLanguageModel (env_of [(''OPENAI_API_KEY'', ''''), (''COHERE_API_KEY'', '''')])
     = Inl (Error ''Missing environment variable: OPENAI_API_KEY or AZURE_OPENAI_API_KEY or COHERE_API_KEY'')"
proof (intro conjI)
  let ?e = "env_of [(''OPENAI_API_KEY'', ''''), (''OPENAI_MODEL'', ''gpt-4''),
        (''AZURE_OPENAI_API_KEY'', ''az-1''), (''AZURE_OPENAI_ENDPOINT'', ''https://example.test/azure'')]"
  show "createLanguageModel ?e = Inr (createAzureOpenAILanguageModel ''az-1'' ''https://example.test/azure'')"
    using createLanguageModel_empty_key [of _ ?e "''az-1''", THEN conjunct2, THEN conjunct1]
    by (simp add: env_of_def)
  show "createLanguageModel ?e = createLanguageModel (?e(''OPENAI_API_KEY'' := None))"
    using createLanguageModel_empty_key [of "''OPENAI_API_KEY''" ?e, THEN conjunct1]
    by (simp add: env_of_def)
next
  let ?e = "env_of [(''OPENAI_API_KEY'', ''''), (''COHERE_API_KEY'', '''')]"
  show "createLanguageModel ?e =
     Inl (Error ''Missing environment variable: OPENAI_API_KEY or AZURE_OPENAI_API_KEY or COHERE_API_KEY'')"
    using createLanguageModel_empty_key [of _ ?e, THEN conjunct2, THEN conjunct2]
    by (simp add: env_of_def)
qed

section \<open>The compiled build against the source\<close>

lemma dist_params_differ_only_in_temperature:
  "map_of (dist_complete_params dps b prompt) =
     (map_of (complete_params dps b prompt))(''temperature'' \<mapsto> JNum 0)"
  by (simp add: dist_complete_params_def complete_params_def update_conv')

text \<open>
  C9 says that the request body built by \<open>complete\<close> in the compiled build
  \<open>dist/model.js\<close> equals the one built in the source \<open>model.ts\<close>, the temperature
  included. The code does not do that: for every prompt, provider kind and
  \<open>defaultParams\<close> the build sends temperature 0 where the source sends 0.2, so the two
  bodies differ (and in that field only, by the lemma above).
\<close>

theorem dist_request_body_differs:
  "map_of (dist_complete_params dps b prompt) ''temperature'' = Some (JNum 0) \<and>
   map_of (complete_params dps b prompt) ''temperature'' = Some (JNum (2 / 10)) \<and>
   dist_complete_params dps b prompt \<noteq> complete_params dps b prompt"
proof -
  have d: "map_of (dist_complete_params dps b prompt) ''temperature'' = Some (JNum 0)"
    by (simp add: dist_complete_params_def update_conv')
  have s: "map_of (complete_params dps b prompt) ''temperature'' = Some (JNum (2 / 10))"
    by (simp add: complete_params_def update_conv')
  from d s have "dist_complete_params dps b prompt \<noteq> complete_params dps b prompt"
    by (metis json.inject(2) option.inject zero_neq_numeral divide_eq_0_iff)
  with d s show ?thesis by simp
qed

theorem dist_request_body_differs_witness:
  "dist_complete_params [(''model'', JStr ''gpt-4'')] True ''hello''
     \<noteq> complete_params [(''model'', JStr ''gpt-4'')] True ''hello'' \<and>
   snd (dist_complete (createOpenAILanguageModel ''key'' ''gpt-4'' None None)
          (always (resp 200 ''OK'' JNull)) ''hello'') ! 1
     = HttpPost ''https://api.openai.com/v1/chat/completions''
         (JObj [(''model'', JStr ''gpt-4''),
                (''messages'', JArr [JObj [(''role'', JStr ''user''), (''content'', JStr ''hello'')]]),
                (''n'', JNum 1), (''temperature'', JNum 0)]) \<and>
   snd (complete (createOpenAILanguageModel ''key'' ''gpt-4'' None None)
          (always (resp 200 ''OK'' JNull)) ''hello'') ! 1
     = HttpPost ''https://api.openai.com/v1/chat/completions''
         (JObj [(''model'', JStr ''gpt-4''),
                (''messages'', JArr [JObj [(''role'', JStr ''user''), (''content'', JStr ''hello'')]]),
                (''n'', JNum 1), (''temperature'', JNum (2 / 10))])"
proof (intro conjI)
  show "dist_complete_params [(''model'', JStr ''gpt-4'')] True ''hello''
     \<noteq> complete_params [(''model'', JStr ''gpt-4'')] True ''hello''"
    using dist_request_body_differs [of "[(''model'', JStr ''gpt-4'')]" True "''hello''"]
    by (elim conjE)
qed code_simp+

end
